theory Spec2Isabelle
  imports Main "HOL-Library.Multiset"
begin

section \<open>Strings and numbers as the commands print them\<close>

text \<open>
  Strings are \<^typ>\<open>string\<close>. \<open>String.prototype.toLowerCase\<close> is modelled on the ASCII
  letters (\<open>A\<close>..\<open>Z\<close> map to \<open>a\<close>..\<open>z\<close>, every other character is kept).
\<close>

definition lower_char :: "char \<Rightarrow> char" where
  "lower_char c =
     (let n = (of_char c :: nat) in if 65 \<le> n \<and> n \<le> 90 then char_of (n + 32) else c)"

definition toLowerCase :: "string \<Rightarrow> string" where
  "toLowerCase s = map lower_char s"

text \<open>The decimal rendering of a non-negative integer inside a template literal.\<close>

definition digit :: "nat \<Rightarrow> char" where
  "digit d = ''0123456789'' ! (d mod 10)"

function show_nat :: "nat \<Rightarrow> string" where
  "show_nat n = (if n < 10 then [digit n] else show_nat (n div 10) @ [digit (n mod 10)])"
  by pat_completeness auto
termination
  by (relation "measure (\<lambda>n. n)") auto

declare show_nat.simps [simp del]

definition show_int :: "int \<Rightarrow> string" where
  "show_int i = (if i < 0 then ''-'' @ show_nat (nat (- i)) else show_nat (nat i))"

section \<open>The deployment summary of \<open>DeployCommand.run\<close>\<close>

text \<open>
  \<open>IChangeCounts\<close>, and a change record as the migration response lists it. The
  accumulator of the \<open>reduce\<close> starts as \<open>{update: 0, add: 0, remove: 0}\<close>.
\<close>

record IChangeCounts =
  update :: nat
  add :: nat
  remove :: nat

record change =
  ctype :: string
  description :: string

text \<open>
  One step of the reducer: \<open>changeCounts[change.type.toLowerCase()] += 1\<close>. A key other
  than the three counters creates a property of its own and leaves the counters alone.
\<close>

definition countChange :: "IChangeCounts \<Rightarrow> change \<Rightarrow> IChangeCounts" where
  "countChange changeCounts c =
     (let key = toLowerCase (ctype c) in
      if key = ''update'' then changeCounts\<lparr>update := update changeCounts + 1\<rparr>
      else if key = ''add'' then changeCounts\<lparr>add := add changeCounts + 1\<rparr>
      else if key = ''remove'' then changeCounts\<lparr>remove := remove changeCounts + 1\<rparr>
      else changeCounts)"

definition changeSummary :: "change list \<Rightarrow> IChangeCounts" where
  "changeSummary changes = foldl countChange \<lparr>update = 0, add = 0, remove = 0\<rparr> changes"

text \<open>
  The line after \<open>Changes deployed to the slicknode servers:\<close>, with the source's
  conditions \<open>changes.add === 1 ? 's' : ''\<close> as they are written.
\<close>

definition summaryLine :: "IChangeCounts \<Rightarrow> string" where
  "summaryLine changes =
     show_nat (add changes) @ '' addition'' @ (if add changes = 1 then ''s'' else '''') @ '', '' @
     show_nat (update changes) @ '' update'' @ (if update changes = 1 then ''s'' else '''') @ '', '' @
     show_nat (remove changes) @ '' removal'' @ (if remove changes = 1 then ''s'' else '''')"

text \<open>How many records of a list carry a given tag once lower-cased.\<close>

definition tagged :: "string \<Rightarrow> change list \<Rightarrow> nat" where
  "tagged t cs = length (filter (\<lambda>c. toLowerCase (ctype c) = t) cs)"

section \<open>Clusters, probe timings and the comparators\<close>

text \<open>
  \<open>ICluster\<close> has the fields \<open>id\<close>, \<open>alias\<close>, \<open>name\<close> and \<open>pingUrl\<close> (the first three
  carry a prefix here, \<open>id\<close> being a constant of HOL). A timing is what each probe returns:
  \<open>{latency, cluster}\<close>, the latency \<open>null\<close> when \<open>fetch\<close> threw.
\<close>

record ICluster =
  c_id :: string
  c_alias :: string
  c_name :: string
  pingUrl :: string

record timing =
  latency :: "int option"
  cluster :: ICluster

text \<open>
  The probe of one candidate: \<open>fetch(node.pingUrl)\<close> answers with the elapsed
  milliseconds \<open>Date.now() - start\<close>, or throws, which the \<open>catch\<close> turns into \<open>null\<close>.
\<close>

definition timeProbe :: "(string \<Rightarrow> int option) \<Rightarrow> ICluster \<Rightarrow> timing" where
  "timeProbe fetchPing node = \<lparr>latency = fetchPing (pingUrl node), cluster = node\<rparr>"

text \<open>
  The numbers a comparator can return: an integer, the two infinities or \<open>NaN\<close>.
  \<open>js_minus\<close> is the subtraction of JavaScript on them.
\<close>

datatype jsnum = Num int | PosInf | NegInf | NaN

fun js_minus :: "jsnum \<Rightarrow> jsnum \<Rightarrow> jsnum" where
  "js_minus (Num a) (Num b) = Num (a - b)"
| "js_minus NaN _ = NaN"
| "js_minus _ NaN = NaN"
| "js_minus PosInf PosInf = NaN"
| "js_minus NegInf NegInf = NaN"
| "js_minus PosInf _ = PosInf"
| "js_minus NegInf _ = NegInf"
| "js_minus (Num a) PosInf = NegInf"
| "js_minus (Num a) NegInf = PosInf"

fun greaterThanZero :: "jsnum \<Rightarrow> bool" where
  "greaterThanZero (Num n) = (0 < n)"
| "greaterThanZero PosInf = True"
| "greaterThanZero NegInf = False"
| "greaterThanZero NaN = False"

fun lessThanZero :: "jsnum \<Rightarrow> bool" where
  "lessThanZero (Num n) = (n < 0)"
| "lessThanZero PosInf = False"
| "lessThanZero NegInf = True"
| "lessThanZero NaN = False"

text \<open>\<open>latency || Infinity\<close>: \<open>null\<close> and \<open>0\<close> are both falsy.\<close>

definition orInfinity :: "int option \<Rightarrow> jsnum" where
  "orInfinity l = (case l of None \<Rightarrow> PosInf | Some n \<Rightarrow> if n = 0 then PosInf else Num n)"

text \<open>The comparator of \<open>InitCommand.getCluster\<close>:
  \<open>(a, b) => (a.latency || Infinity) - (b.latency || Infinity)\<close>.\<close>

definition init_compare :: "timing \<Rightarrow> timing \<Rightarrow> jsnum" where
  "init_compare a b = js_minus (orInfinity (latency a)) (orInfinity (latency b))"

text \<open>
  The comparator of \<open>DeployCommand.getCluster\<close>: \<open>(a, b) => a.latency < b.latency ? 1 : 0\<close>.
  The relational operator reads \<open>null\<close> as \<open>0\<close>.
\<close>

definition toNumber :: "int option \<Rightarrow> int" where
  "toNumber l = (case l of None \<Rightarrow> 0 | Some n \<Rightarrow> n)"

definition deploy_compare :: "timing \<Rightarrow> timing \<Rightarrow> jsnum" where
  "deploy_compare a b = (if toNumber (latency a) < toNumber (latency b) then Num 1 else Num 0)"

text \<open>
  \<open>Array.prototype.sort(comparefn)\<close> as the insertion sort of the engine: each
  \<open>element\<close> moves left past every \<open>tmp\<close> with \<open>comparefn(tmp, element) > 0\<close> and stops at
  the first other one. \<open>insertElement\<close> works on the sorted prefix, nearest element
  first. For a consistent comparator this is the order every stable sort yields; for
  any other comparator the standard leaves the order to the engine, and only the
  elements of the result are certain.
\<close>

fun insertElement :: "('a \<Rightarrow> 'a \<Rightarrow> jsnum) \<Rightarrow> 'a \<Rightarrow> 'a list \<Rightarrow> 'a list" where
  "insertElement comparefn element [] = [element]"
| "insertElement comparefn element (tmp # rest) =
     (if greaterThanZero (comparefn tmp element)
      then tmp # insertElement comparefn element rest
      else element # tmp # rest)"

definition js_sort :: "('a \<Rightarrow> 'a \<Rightarrow> jsnum) \<Rightarrow> 'a list \<Rightarrow> 'a list" where
  "js_sort comparefn xs = rev (foldl (\<lambda>sorted element. insertElement comparefn element sorted) [] xs)"

text \<open>The ranked list each command builds from the timings.\<close>

definition init_ranking :: "timing list \<Rightarrow> timing list" where
  "init_ranking dcTimers = js_sort init_compare dcTimers"

definition availableDcs :: "timing list \<Rightarrow> timing list" where
  "availableDcs timedDcs = js_sort deploy_compare (filter (\<lambda>d. latency d \<noteq> None) timedDcs)"

text \<open>
  The order the specification asks of a ranking, on latencies: ascending, with the
  unreachable (\<open>None\<close>) after every measured one.
\<close>

definition rankedBefore :: "int option \<Rightarrow> int option \<Rightarrow> bool" where
  "rankedBefore a b =
     (case a of
        None \<Rightarrow> b = None
      | Some x \<Rightarrow> (case b of None \<Rightarrow> True | Some y \<Rightarrow> x \<le> y))"

section \<open>Backend responses, options and the trace of a run\<close>

text \<open>
  The fields of the GraphQL responses the commands read. A field the server may leave
  out is an option (\<open>None\<close> when the field is absent); an \<open>errors\<close> array is the list of
  its messages, empty when the response has none.
\<close>

record cluster_response =
  lc_edges :: "ICluster list"
  lc_errors :: "string list"

record version_node =
  v_bundle :: "string option"
  v_id :: "string option"

record project_node =
  p_id :: "string option"
  p_alias :: "string option"
  p_name :: "string option"
  p_endpoint :: "string option"
  p_consoleUrl :: "string option"
  p_playgroundUrl :: "string option"
  p_version :: "version_node option"

record create_response =
  cp_node :: "project_node option"
  cp_errors :: "string list"

record createProjectInput =
  input_name :: "string option"
  input_alias :: "string option"
  input_cluster :: string
  input_account :: "string option"

text \<open>
  Modelled from the spec: the type \<open>IProjectChangeError\<close> is declared outside the
  sources; an error of the migration carries its text. The array
  \<open>data.migrateProject.errors\<close> may hold \<open>null\<close> entries, which the code filters out.
\<close>

datatype IProjectChangeError = ProjectChangeError string

record migrate_response =
  mp_errors :: "IProjectChangeError option list"
  mp_node :: "project_node option"
  mp_changes :: "change list"
  mr_errors :: "string list"

text \<open>\<open>IEnvironmentConfig\<close>, the record the Environment Store keeps under a name.\<close>

record IEnvironmentConfig =
  e_endpoint :: "string option"
  e_version :: "string option"
  e_alias :: "string option"
  e_consoleUrl :: "string option"
  e_playgroundUrl :: "string option"
  e_name :: "string option"
  e_id :: "string option"

type_synonym store = "string \<rightharpoonup> IEnvironmentConfig"

text \<open>
  Modelled from the spec: \<open>getEnvironment\<close> and \<open>updateEnvironment\<close> belong to the base
  command, which is not among the sources; the store maps an environment name to its
  record, a lookup reads it and an update writes the record under the name.
\<close>

definition getEnvironment :: "store \<Rightarrow> string \<Rightarrow> IEnvironmentConfig option" where
  "getEnvironment st name = st name"

definition updateEnvironment :: "store \<Rightarrow> string \<Rightarrow> IEnvironmentConfig \<Rightarrow> store" where
  "updateEnvironment st name envConfig = st(name \<mapsto> envConfig)"

text \<open>\<open>IDeployCommandOptions\<close> with the inherited \<open>env\<close>; \<open>force\<close> is read for its truth value.\<close>

record IDeployCommandOptions =
  opt_force :: bool
  opt_account :: "string option"
  opt_alias :: "string option"
  opt_name :: "string option"
  opt_env :: "string option"

text \<open>
  Everything a command does to the outside is an event of its trace, in program order:
  backend calls, probes, prompts, log lines, the refresh of the local files and the
  write to the Environment Store. Colours (\<open>chalk\<close>) are not part of the text.
\<close>

datatype prompt =
    ConfirmDeploy
  | AskName "string option"
  | AskAlias "string option"
  | SelectCluster "(string \<times> ICluster) list"

datatype event =
    FetchListCluster
  | FetchPing string
  | FetchCreateProject createProjectInput
  | LoadAndPrintStatus IEnvironmentConfig
  | MigrateProject bool IEnvironmentConfig
  | Prompt prompt
  | ActionStart string
  | ActionStop
  | LogLine string
  | LogError string
  | PrintError IProjectChangeError
  | LoadProjectVersion string
  | UpdateEnvironment string IEnvironmentConfig

datatype error = Error string | TypeError

text \<open>
  What the outside answers. \<open>fetchPing url\<close> is \<open>Some ms\<close> when \<open>fetch(url)\<close> resolves after
  \<open>ms\<close> milliseconds and \<open>None\<close> when it throws; \<open>answerName\<close> and \<open>answerAlias\<close> are what
  the user types at a prompt with the given default; \<open>selection\<close> is the position the
  user confirms in a list prompt; \<open>loadProjectVersion bundle\<close> is \<open>False\<close> when the
  download throws.
\<close>

record world =
  listCluster :: cluster_response
  fetchPing :: "string \<Rightarrow> int option"
  createProject :: "createProjectInput \<Rightarrow> create_response"
  answerName :: "string option \<Rightarrow> string"
  answerAlias :: "string option \<Rightarrow> string"
  selection :: nat
  hasConfig :: bool
  validationErrors :: "string list"
  updateRequired :: bool
  authenticated :: bool
  validStatus :: "IEnvironmentConfig \<Rightarrow> bool"
  confirmDeploy :: bool
  migrateProject :: "IEnvironmentConfig \<Rightarrow> migrate_response"
  loadProjectVersion :: "string \<Rightarrow> bool"

section \<open>The cluster resolvers\<close>

text \<open>The entry of the list prompt for one timing; a \<open>null\<close> latency prints as \<open>null\<close>.\<close>

definition choice :: "timing \<Rightarrow> string \<times> ICluster" where
  "choice d =
     (c_alias (cluster d) @ '': '' @ c_name (cluster d) @ '' (latency: '' @
        (case latency d of None \<Rightarrow> ''null'' | Some l \<Rightarrow> show_int l) @ ''ms)'',
      cluster d)"

text \<open>
  \<open>InitCommand.getCluster\<close>. The list prompt returns the value of the entry the user
  confirms; its cursor wraps around the list.
\<close>

definition init_getCluster :: "world \<Rightarrow> event list \<times> ICluster option" where
  "init_getCluster w =
     (let edges = lc_edges (listCluster w) in
      if length edges = 1 then
        ([ActionStart ''Load available clusters'', FetchListCluster, ActionStop], Some (edges ! 0))
      else if length edges = 0 then
        ([ActionStart ''Load available clusters'', FetchListCluster], None)
      else
        let dcTimers = map (timeProbe (fetchPing w)) edges;
            choices = map choice (init_ranking dcTimers)
        in ([ActionStart ''Load available clusters'', FetchListCluster]
              @ map (\<lambda>node. FetchPing (pingUrl node)) edges
              @ [ActionStop, Prompt (SelectCluster choices)],
            Some (snd (choices ! (selection w mod length choices)))))"

text \<open>\<open>DeployCommand.getCluster\<close>.\<close>

definition deploy_getCluster :: "world \<Rightarrow> event list \<times> ICluster option" where
  "deploy_getCluster w =
     (let result = listCluster w; edges = lc_edges result in
      case lc_errors result of
        message # _ \<Rightarrow>
          ([FetchListCluster, LogLine ''Load available clusters'',
            LogError (''Error loading clusters: '' @ message)], None)
      | [] \<Rightarrow>
          let timedDcs = map (timeProbe (fetchPing w)) edges in
          ([FetchListCluster, LogLine ''Load available clusters'']
             @ map (\<lambda>node. FetchPing (pingUrl node)) edges,
           case availableDcs timedDcs of
             [] \<Rightarrow> None
           | first # _ \<Rightarrow> Some (cluster first)))"

section \<open>The environment resolver\<close>

text \<open>
  Truthiness of an optional string, \<open>a || b\<close> on such values, and a value inside a
  template literal (\<open>None\<close> is \<open>undefined\<close> and prints as that word).
\<close>

definition truthy :: "string option \<Rightarrow> bool" where
  "truthy v = (case v of None \<Rightarrow> False | Some s \<Rightarrow> s \<noteq> [])"

definition js_or :: "string option \<Rightarrow> string option \<Rightarrow> string option" where
  "js_or a b = (if truthy a then a else b)"

definition template :: "string option \<Rightarrow> string" where
  "template v = (case v of None \<Rightarrow> ''undefined'' | Some s \<Rightarrow> s)"

text \<open>\<open>const name = this.options.env || 'default'\<close>.\<close>

definition envName :: "IDeployCommandOptions \<Rightarrow> string" where
  "envName opts = template (js_or (opt_env opts) (Some ''default''))"

text \<open>
  The suggestions: \<open>suggestedName\<close> and \<open>suggestedAlias\<close> are assigned only inside
  \<open>if (defaultEnv)\<close> and stay \<open>undefined\<close> otherwise.
\<close>

definition suggestions ::
  "IDeployCommandOptions \<Rightarrow> string \<Rightarrow> IEnvironmentConfig option \<Rightarrow> string option \<times> string option" where
  "suggestions opts envN defaultEnv =
     (case defaultEnv of
        None \<Rightarrow> (None, None)
      | Some d \<Rightarrow>
          (js_or (opt_name opts) (Some (template (e_name d) @ '' ('' @ envN @ '')'')),
           js_or (opt_alias opts) (Some (template (e_alias d) @ ''-'' @ envN))))"

text \<open>
  \<open>newName\<close> and \<open>newAlias\<close>, with the prompts issued for them: none under \<open>force\<close>;
  otherwise one for each option the caller left out, whose answer replaces the
  suggestion (\<open>{name: suggestedName, alias: suggestedAlias, ...answers}\<close>).
\<close>

definition newValues ::
  "IDeployCommandOptions \<Rightarrow> world \<Rightarrow> string option \<times> string option
     \<Rightarrow> event list \<times> string option \<times> string option" where
  "newValues opts w suggested =
     (let suggestedName = fst suggested; suggestedAlias = snd suggested in
      if opt_force opts then ([], suggestedName, suggestedAlias)
      else
        let askName = \<not> truthy (opt_name opts); askAlias = \<not> truthy (opt_alias opts) in
        ((if askName then [Prompt (AskName suggestedName)] else [])
           @ (if askAlias then [Prompt (AskAlias suggestedAlias)] else []),
         if askName then Some (answerName w suggestedName) else suggestedName,
         if askAlias then Some (answerAlias w suggestedAlias) else suggestedAlias))"

text \<open>The record built from the created project: \<open>const envConfig = {...}\<close>.\<close>

definition envOf :: "project_node \<Rightarrow> version_node \<Rightarrow> IEnvironmentConfig" where
  "envOf project v =
     \<lparr>e_endpoint = p_endpoint project, e_version = v_id v, e_alias = p_alias project,
      e_consoleUrl = p_consoleUrl project, e_playgroundUrl = p_playgroundUrl project,
      e_name = p_name project, e_id = p_id project\<rparr>"

text \<open>
  \<open>DeployCommand.getOrCreateEnvironment\<close>: the store after the call, the trace and the
  record returned or the error thrown. Reading \<open>project.version.id\<close> of a node without
  a version throws a \<open>TypeError\<close>.
\<close>

definition getOrCreateEnvironment ::
  "IDeployCommandOptions \<Rightarrow> world \<Rightarrow> store \<Rightarrow> store \<times> event list \<times> (error + IEnvironmentConfig)" where
  "getOrCreateEnvironment opts w st =
     (let envN = envName opts in
      case getEnvironment st envN of
        Some env \<Rightarrow> (st, [], Inr env)
      | None \<Rightarrow>
          let started = [LogLine (''Creating project for env \"'' @ envN @ ''\"'')];
              defaultEnv = getEnvironment st ''default'';
              (prompts, newName, newAlias) = newValues opts w (suggestions opts envN defaultEnv);
              (probing, found) = deploy_getCluster w
          in case found of
               None \<Rightarrow>
                 (st,
                  started @ prompts @ probing @
                    [LogError ''There is currently no cluster with sufficient capacity available. Try again later.''],
                  Inl (Error ''Error creating project''))
             | Some cl \<Rightarrow>
                 let variables =
                       \<lparr>input_name = newName, input_alias = newAlias, input_cluster = c_id cl,
                        input_account = js_or (opt_account opts) None\<rparr>;
                     result = createProject w variables;
                     called = started @ prompts @ probing @ [FetchCreateProject variables]
                 in case cp_node result of
                      None \<Rightarrow>
                        (st,
                         called @ [LogError ''ERROR: Could not create project. Please try again later.'']
                           @ map LogError (cp_errors result),
                         Inl (Error ''Error creating project''))
                    | Some project \<Rightarrow>
                        (case p_version project of
                           None \<Rightarrow> (st, called, Inl TypeError)
                         | Some v \<Rightarrow>
                             let envConfig = envOf project v
                             in (updateEnvironment st envN envConfig,
                                 called @ [UpdateEnvironment envN envConfig],
                                 Inr envConfig)))"

section \<open>The deployment orchestrator\<close>

text \<open>
  Modelled from the spec: \<open>printErrors\<close> belongs to the status command, which is not
  among the sources; it prints each error it is given.
\<close>

definition printErrors :: "IProjectChangeError list \<Rightarrow> event list" where
  "printErrors errs = map PrintError errs"

text \<open>\<open>.filter((e) => e)\<close> on the errors of the migration: the \<open>null\<close> entries go.\<close>

definition serverErrors :: "migrate_response \<Rightarrow> IProjectChangeError list" where
  "serverErrors result = concat (map (\<lambda>e. case e of None \<Rightarrow> [] | Some x \<Rightarrow> [x]) (mp_errors result))"

text \<open>
  The bundle of the deployed version when \<open>project\<close>, \<open>project.version\<close> and
  \<open>project.version.bundle\<close> are all truthy.
\<close>

definition deployedBundle :: "migrate_response \<Rightarrow> string option" where
  "deployedBundle result =
     (case mp_node result of
        None \<Rightarrow> None
      | Some project \<Rightarrow>
          (case p_version project of
             None \<Rightarrow> None
           | Some v \<Rightarrow> if truthy (v_bundle v) then v_bundle v else None))"

text \<open>
  The part of \<open>DeployCommand.run\<close> that follows the migration call: the check of the
  server errors, the check of the deployed version, the refresh of the local files and
  the report.
\<close>

definition afterMigration :: "world \<Rightarrow> migrate_response \<Rightarrow> event list" where
  "afterMigration w result =
     (if serverErrors result \<noteq> [] then printErrors (serverErrors result)
      else case deployedBundle result of
        None \<Rightarrow>
          LogError ''The version was not deployed. Try again later.''
            # map (\<lambda>message. LogError (''Error: '' @ message)) (mr_errors result)
      | Some bundle \<Rightarrow>
          if \<not> loadProjectVersion w bundle then
            [LoadProjectVersion bundle, LogError ''Error loading project config from servers'']
          else
            [LoadProjectVersion bundle,
             LogLine (''Changes deployed to the slicknode servers: \<newline>''
                        @ summaryLine (changeSummary (mp_changes result))),
             LogLine ''Deployment successful!''])"

text \<open>One line of the list of validation errors: \<open>`  ${index + 1}. ${error.toString()}\n`\<close>.\<close>

definition validationLine :: "nat \<times> string \<Rightarrow> event" where
  "validationLine numbered =
     LogError (''  '' @ show_nat (fst numbered) @ ''. '' @ snd numbered @ ''\<newline>'')"

text \<open>
  \<open>DeployCommand.run\<close>. The checks before the environment is resolved read what the
  outside answers; an error thrown by the resolver ends the run with that error.
\<close>

definition run ::
  "IDeployCommandOptions \<Rightarrow> world \<Rightarrow> store \<Rightarrow> store \<times> event list \<times> (error + unit)" where
  "run opts w st =
     (if \<not> hasConfig w then
        (st,
         [LogError ''Deployment failed:\<newline>'',
          LogLine (''  The directory is not a slicknode project. \<newline>''
                     @ ''  Run slicknode init to initialize a new project.'')],
         Inr ())
      else if validationErrors w \<noteq> [] then
        (st,
         LogError ''Project configuration has errors: \<newline>''
           # map validationLine (enumerate 1 (validationErrors w)),
         Inr ())
      else if updateRequired w then (st, [], Inr ())
      else if \<not> authenticated w then (st, [], Inr ())
      else
        case getOrCreateEnvironment opts w st of
          (st', resolving, Inl err) \<Rightarrow> (st', resolving, Inl err)
        | (st', resolving, Inr env) \<Rightarrow>
            if \<not> validStatus w env then (st', resolving @ [LoadAndPrintStatus env], Inr ())
            else if \<not> opt_force opts \<and> \<not> confirmDeploy w then
              (st',
               resolving @ [LoadAndPrintStatus env, Prompt ConfirmDeploy, LogLine ''Deployment aborted''],
               Inr ())
            else
              (st',
               resolving @ [LoadAndPrintStatus env]
                 @ (if opt_force opts then [] else [Prompt ConfirmDeploy])
                 @ [MigrateProject False env]
                 @ afterMigration w (migrateProject w env),
               Inr ()))"

section \<open>What a trace contains\<close>

text \<open>
  The bundles handed to the refresh of the local files, the records written to the
  store, the URLs probed and the prompts shown, each in the order of the trace.
\<close>

fun refreshes :: "event list \<Rightarrow> string list" where
  "refreshes [] = []"
| "refreshes (LoadProjectVersion bundle # tr) = bundle # refreshes tr"
| "refreshes (_ # tr) = refreshes tr"

fun storeWrites :: "event list \<Rightarrow> (string \<times> IEnvironmentConfig) list" where
  "storeWrites [] = []"
| "storeWrites (UpdateEnvironment envN envConfig # tr) = (envN, envConfig) # storeWrites tr"
| "storeWrites (_ # tr) = storeWrites tr"

fun probes :: "event list \<Rightarrow> string list" where
  "probes [] = []"
| "probes (FetchPing url # tr) = url # probes tr"
| "probes (_ # tr) = probes tr"

fun prompts :: "event list \<Rightarrow> prompt list" where
  "prompts [] = []"
| "prompts (Prompt p # tr) = p # prompts tr"
| "prompts (_ # tr) = prompts tr"

fun createCalls :: "event list \<Rightarrow> createProjectInput list" where
  "createCalls [] = []"
| "createCalls (FetchCreateProject input # tr) = input # createCalls tr"
| "createCalls (_ # tr) = createCalls tr"

text \<open>
  The specification's condition on a migration response: the project node is missing
  or lacks a non-empty \<open>version.bundle\<close>.
\<close>

definition lacksBundle :: "migrate_response \<Rightarrow> bool" where
  "lacksBundle result =
     (case mp_node result of
        None \<Rightarrow> True
      | Some project \<Rightarrow>
          (case p_version project of
             None \<Rightarrow> True
           | Some v \<Rightarrow> (case v_bundle v of None \<Rightarrow> True | Some b \<Rightarrow> b = [])))"

section \<open>Example data\<close>

definition clusterNamed :: "string \<Rightarrow> ICluster" where
  "clusterNamed s = \<lparr>c_id = s, c_alias = s, c_name = s, pingUrl = ''http://ping.'' @ s\<rparr>"

definition timed :: "string \<Rightarrow> int option \<Rightarrow> timing" where
  "timed s l = \<lparr>latency = l, cluster = clusterNamed s\<rparr>"

definition exampleProject :: project_node where
  "exampleProject =
     \<lparr>p_id = Some ''234'', p_alias = Some ''testname-1a2b3c4d'', p_name = Some ''TestName'',
      p_endpoint = Some ''http://testproject'', p_consoleUrl = None, p_playgroundUrl = None,
      p_version =
        Some \<lparr>v_bundle = Some ''http://localhost/fakeversionbundle.zip'', v_id = Some ''someid''\<rparr>\<rparr>"

definition exampleWorld :: "ICluster list \<Rightarrow> (string \<Rightarrow> int option) \<Rightarrow> world" where
  "exampleWorld edges ping =
     \<lparr>listCluster = \<lparr>lc_edges = edges, lc_errors = []\<rparr>,
      fetchPing = ping,
      createProject = (\<lambda>input. \<lparr>cp_node = Some exampleProject, cp_errors = []\<rparr>),
      answerName = (\<lambda>suggested. ''My Project''),
      answerAlias = (\<lambda>suggested. ''my-project''),
      selection = 0,
      hasConfig = True, validationErrors = [], updateRequired = False, authenticated = True,
      validStatus = (\<lambda>env. True), confirmDeploy = True,
      migrateProject =
        (\<lambda>env. \<lparr>mp_errors = [], mp_node = Some exampleProject, mp_changes = [], mr_errors = []\<rparr>),
      loadProjectVersion = (\<lambda>bundle. True)\<rparr>"

definition exampleEnv :: IEnvironmentConfig where
  "exampleEnv =
     \<lparr>e_endpoint = Some ''http://testproject'', e_version = Some ''someid'',
      e_alias = Some ''testname-1a2b3c4d'', e_consoleUrl = None, e_playgroundUrl = None,
      e_name = Some ''TestName'', e_id = Some ''234''\<rparr>"

definition exampleStore :: store where
  "exampleStore = Map.empty(''default'' \<mapsto> exampleEnv)"

definition exampleOptions :: IDeployCommandOptions where
  "exampleOptions =
     \<lparr>opt_force = True, opt_account = None, opt_alias = None, opt_name = None, opt_env = None\<rparr>"

definition examplePing :: "string \<Rightarrow> int option" where
  "examplePing url =
     (if url = ''http://ping.A'' then Some 20
      else if url = ''http://ping.B'' then Some 10
      else if url = ''http://ping.C'' then Some 30
      else None)"

text \<open>A store with two environments, \<open>default\<close> and \<open>staging\<close>, bound to different projects.\<close>

definition stagingEnv :: IEnvironmentConfig where
  "stagingEnv =
     \<lparr>e_endpoint = Some ''http://testproject-staging'', e_version = Some ''otherid'',
      e_alias = Some ''testname-1a2b3c4d-staging'', e_consoleUrl = None, e_playgroundUrl = None,
      e_name = Some ''TestName (staging)'', e_id = Some ''567''\<rparr>"

definition twoEnvStore :: store where
  "twoEnvStore = exampleStore(''staging'' \<mapsto> stagingEnv)"

text \<open>Options that force the run and supply a name and an alias.\<close>

definition overrideOptions :: IDeployCommandOptions where
  "overrideOptions =
     \<lparr>opt_force = True, opt_account = None, opt_alias = Some ''my-alias'',
      opt_name = Some ''My Project'', opt_env = None\<rparr>"

text \<open>A backend whose project creation answers with an error and no node.\<close>

definition noProjectWorld :: world where
  "noProjectWorld =
     (exampleWorld [clusterNamed ''A''] examplePing)
       \<lparr>createProject := \<lambda>input. \<lparr>cp_node = None, cp_errors = [''Error'']\<rparr>\<rparr>"

text \<open>
  Three migration responses: one whose \<open>errors\<close> array holds a single \<open>null\<close> beside a
  deployed version, one that failed with an error and no node, and one without errors
  whose node has no version.
\<close>

definition nullErrorsWorld :: world where
  "nullErrorsWorld =
     (exampleWorld [] examplePing)
       \<lparr>migrateProject := \<lambda>env.
          \<lparr>mp_errors = [None], mp_node = Some exampleProject, mp_changes = [], mr_errors = []\<rparr>\<rparr>"

definition failedMigration :: migrate_response where
  "failedMigration =
     \<lparr>mp_errors = [Some (ProjectChangeError ''Type User not found'')], mp_node = None,
      mp_changes = [], mr_errors = []\<rparr>"

definition failedMigrationWorld :: world where
  "failedMigrationWorld = (exampleWorld [] examplePing)\<lparr>migrateProject := \<lambda>env. failedMigration\<rparr>"

definition notDeployed :: migrate_response where
  "notDeployed =
     \<lparr>mp_errors = [], mp_node = Some (exampleProject\<lparr>p_version := None\<rparr>), mp_changes = [],
      mr_errors = [''No capacity'']\<rparr>"

definition notDeployedWorld :: world where
  "notDeployedWorld = (exampleWorld [] examplePing)\<lparr>migrateProject := \<lambda>env. notDeployed\<rparr>"

section \<open>Unfolding sets\<close>

lemmas example_defs =
  exampleWorld_def exampleOptions_def exampleStore_def exampleEnv_def exampleProject_def
  examplePing_def clusterNamed_def timed_def

lemmas resolver_defs =
  getOrCreateEnvironment_def getEnvironment_def updateEnvironment_def envName_def js_or_def
  truthy_def template_def suggestions_def newValues_def deploy_getCluster_def availableDcs_def
  js_sort_def timeProbe_def deploy_compare_def toNumber_def envOf_def

lemmas run_defs =
  run_def afterMigration_def serverErrors_def deployedBundle_def printErrors_def

section \<open>Traces: what each part of a run can and cannot contain\<close>

lemma refreshes_append: "refreshes (xs @ ys) = refreshes xs @ refreshes ys"
  by (induction xs rule: refreshes.induct) simp_all

lemma storeWrites_append: "storeWrites (xs @ ys) = storeWrites xs @ storeWrites ys"
  by (induction xs rule: storeWrites.induct) simp_all

lemma probes_append: "probes (xs @ ys) = probes xs @ probes ys"
  by (induction xs rule: probes.induct) simp_all

lemma prompts_append: "prompts (xs @ ys) = prompts xs @ prompts ys"
  by (induction xs rule: prompts.induct) simp_all

lemma createCalls_append: "createCalls (xs @ ys) = createCalls xs @ createCalls ys"
  by (induction xs rule: createCalls.induct) simp_all

lemma refreshes_printErrors: "refreshes (printErrors es) = []"
  by (induction es) (simp_all add: printErrors_def)

lemma refreshes_LogError: "refreshes (map (\<lambda>m. LogError (f m)) ms) = []"
  by (induction ms) simp_all

lemma refreshes_FetchPing: "refreshes (map (\<lambda>node. FetchPing (f node)) xs) = []"
  by (induction xs) simp_all

lemma refreshes_validationLine: "refreshes (map validationLine ms) = []"
  by (induction ms) (simp_all add: validationLine_def)

lemma storeWrites_LogError: "storeWrites (map (\<lambda>m. LogError (f m)) ms) = []"
  by (induction ms) simp_all

lemma storeWrites_FetchPing: "storeWrites (map (\<lambda>node. FetchPing (f node)) xs) = []"
  by (induction xs) simp_all

lemma probes_FetchPing: "probes (map (\<lambda>node. FetchPing (f node)) xs) = map f xs"
  by (induction xs) simp_all

lemma prompts_FetchPing: "prompts (map (\<lambda>node. FetchPing (f node)) xs) = []"
  by (induction xs) simp_all

lemma createCalls_FetchPing: "createCalls (map (\<lambda>node. FetchPing (f node)) xs) = []"
  by (induction xs) simp_all

lemma refreshes_deploy_getCluster: "refreshes (fst (deploy_getCluster w)) = []"
  by (simp add: deploy_getCluster_def Let_def refreshes_append refreshes_FetchPing split: list.splits)

lemma storeWrites_deploy_getCluster: "storeWrites (fst (deploy_getCluster w)) = []"
  by (simp add: deploy_getCluster_def Let_def storeWrites_append storeWrites_FetchPing split: list.splits)

lemma createCalls_deploy_getCluster: "createCalls (fst (deploy_getCluster w)) = []"
  by (simp add: deploy_getCluster_def Let_def createCalls_append createCalls_FetchPing split: list.splits)

lemma prompts_deploy_getCluster: "prompts (fst (deploy_getCluster w)) = []"
  by (simp add: deploy_getCluster_def Let_def prompts_append prompts_FetchPing split: list.splits)

lemma probes_deploy_getCluster:
  "lc_errors (listCluster w) = [] \<Longrightarrow>
     probes (fst (deploy_getCluster w)) = map pingUrl (lc_edges (listCluster w))"
  by (simp add: deploy_getCluster_def Let_def probes_append probes_FetchPing)

lemma refreshes_newValues: "refreshes (fst (newValues opts w s)) = []"
  by (simp add: newValues_def Let_def)

lemma storeWrites_newValues: "storeWrites (fst (newValues opts w s)) = []"
  by (simp add: newValues_def Let_def)

lemma createCalls_newValues: "createCalls (fst (newValues opts w s)) = []"
  by (simp add: newValues_def Let_def)

lemma refreshes_getOrCreateEnvironment:
  "refreshes (fst (snd (getOrCreateEnvironment opts w st))) = []"
proof -
  have a: "\<And>tr c. deploy_getCluster w = (tr, c) \<Longrightarrow> refreshes tr = []"
    using refreshes_deploy_getCluster [of w] by simp
  have b: "\<And>s tr n a. newValues opts w s = (tr, n, a) \<Longrightarrow> refreshes tr = []"
    using refreshes_newValues [of opts w] by (metis fst_conv)
  show ?thesis
    by (auto simp: getOrCreateEnvironment_def Let_def refreshes_append refreshes_LogError a b
             split: option.splits prod.splits)
qed

text \<open>
  A run refreshes the local files only through what follows the migration call.
\<close>

lemma refreshes_run:
  assumes "\<And>env. refreshes (afterMigration w (migrateProject w env)) = []"
  shows "refreshes (fst (snd (run opts w st))) = []"
proof -
  have g: "\<And>s tr r. getOrCreateEnvironment opts w st = (s, tr, r) \<Longrightarrow> refreshes tr = []"
    using refreshes_getOrCreateEnvironment [of opts w st] by simp
  show ?thesis
    using assms
    by (auto simp: run_def refreshes_append g refreshes_validationLine split: prod.splits sum.splits)
qed

section \<open>Properties of the sort and of the rankings\<close>

lemma set_insertElement: "set (insertElement comparefn element xs) = insert element (set xs)"
  by (induction xs) auto

lemma set_foldl_insertElement:
  "set (foldl (\<lambda>sorted element. insertElement comparefn element sorted) acc xs) = set acc \<union> set xs"
  by (induction xs arbitrary: acc) (auto simp: set_insertElement)

lemma set_js_sort: "set (js_sort comparefn xs) = set xs"
  by (simp add: js_sort_def set_foldl_insertElement)

lemma mset_insertElement: "mset (insertElement comparefn element xs) = add_mset element (mset xs)"
  by (induction xs) auto

lemma mset_js_sort: "mset (js_sort comparefn xs) = mset xs"
proof -
  have "mset (foldl (\<lambda>sorted element. insertElement comparefn element sorted) acc xs)
        = mset acc + mset xs" for acc
    by (induction xs arbitrary: acc) (auto simp: mset_insertElement)
  then show ?thesis by (simp add: js_sort_def)
qed

lemma set_availableDcs:
  "set (availableDcs timedDcs) = {d \<in> set timedDcs. latency d \<noteq> None}"
  by (auto simp: availableDcs_def set_js_sort)

text \<open>
  The comparator of the deploy command never answers with a negative number: it can
  say that \<open>a\<close> belongs after \<open>b\<close>, never that \<open>a\<close> belongs before \<open>b\<close>.
\<close>

lemma deploy_compare_never_negative: "\<not> lessThanZero (deploy_compare a b)"
  by (simp add: deploy_compare_def)

text \<open>
  The comparator of the init command agrees with the order of the specification on
  timings whose latency is not \<open>0\<close>.
\<close>

lemma init_compare_rankedBefore:
  assumes "latency a \<noteq> Some 0" "latency b \<noteq> Some 0"
  shows "greaterThanZero (init_compare a b) \<longleftrightarrow> \<not> rankedBefore (latency a) (latency b)"
  using assms
  by (auto simp: init_compare_def orInfinity_def rankedBefore_def split: option.splits)

lemma rankedBefore_trans:
  "rankedBefore a b \<Longrightarrow> rankedBefore b c \<Longrightarrow> rankedBefore a c"
  by (auto simp: rankedBefore_def split: option.splits)

lemma rankedBefore_total: "rankedBefore a b \<or> rankedBefore b a"
  by (auto simp: rankedBefore_def split: option.splits)

text \<open>The sorted prefix, nearest element first, is descending.\<close>

lemma insertElement_descending:
  assumes "sorted_wrt (\<lambda>x y. rankedBefore (latency y) (latency x)) prefix"
    and "\<forall>d \<in> set (element # prefix). latency d \<noteq> Some 0"
  shows "sorted_wrt (\<lambda>x y. rankedBefore (latency y) (latency x))
           (insertElement init_compare element prefix)"
  using assms
proof (induction prefix)
  case Nil
  then show ?case by simp
next
  case (Cons tmp rest)
  show ?case
  proof (cases "greaterThanZero (init_compare tmp element)")
    case True
    then have "\<not> rankedBefore (latency tmp) (latency element)"
      using Cons.prems(2) by (simp add: init_compare_rankedBefore)
    then have b: "rankedBefore (latency element) (latency tmp)"
      using rankedBefore_total by blast
    have "sorted_wrt (\<lambda>x y. rankedBefore (latency y) (latency x))
            (insertElement init_compare element rest)"
      using Cons by simp
    moreover have "\<forall>y \<in> set (insertElement init_compare element rest).
                     rankedBefore (latency y) (latency tmp)"
      using Cons.prems(1) b by (auto simp: set_insertElement)
    ultimately show ?thesis using True by simp
  next
    case False
    then have a: "rankedBefore (latency tmp) (latency element)"
      using Cons.prems(2) by (simp add: init_compare_rankedBefore)
    have "\<forall>y \<in> set rest. rankedBefore (latency y) (latency element)"
      using Cons.prems(1) a rankedBefore_trans by auto
    then show ?thesis using False a Cons.prems(1) by simp
  qed
qed

text \<open>An element never passes one of its own latency: ties keep their order.\<close>

lemma insertElement_filter:
  assumes "\<forall>d \<in> set (element # prefix). latency d \<noteq> Some 0"
  shows "filter (\<lambda>d. latency d = l) (insertElement init_compare element prefix) =
         (if latency element = l then element # filter (\<lambda>d. latency d = l) prefix
          else filter (\<lambda>d. latency d = l) prefix)"
  using assms
proof (induction prefix)
  case Nil
  then show ?case by simp
next
  case (Cons tmp rest)
  show ?case
  proof (cases "greaterThanZero (init_compare tmp element)")
    case True
    then have "\<not> rankedBefore (latency tmp) (latency element)"
      using Cons.prems by (simp add: init_compare_rankedBefore)
    then have "latency tmp \<noteq> latency element"
      using rankedBefore_total by metis
    then show ?thesis using True Cons by auto
  next
    case False
    then show ?thesis by simp
  qed
qed

lemma foldl_insertElement_sorted:
  assumes "sorted_wrt (\<lambda>x y. rankedBefore (latency y) (latency x)) acc"
    and "\<forall>d \<in> set acc \<union> set xs. latency d \<noteq> Some 0"
  shows "sorted_wrt (\<lambda>x y. rankedBefore (latency y) (latency x))
           (foldl (\<lambda>sorted element. insertElement init_compare element sorted) acc xs)"
  using assms
proof (induction xs arbitrary: acc)
  case Nil
  then show ?case by simp
next
  case (Cons x xs)
  have "sorted_wrt (\<lambda>x y. rankedBefore (latency y) (latency x)) (insertElement init_compare x acc)"
    using Cons.prems by (intro insertElement_descending) auto
  moreover have "\<forall>d \<in> set (insertElement init_compare x acc) \<union> set xs. latency d \<noteq> Some 0"
    using Cons.prems(2) by (auto simp: set_insertElement)
  ultimately show ?case using Cons.IH by simp
qed

lemma foldl_insertElement_filter:
  assumes "\<forall>d \<in> set acc \<union> set xs. latency d \<noteq> Some 0"
  shows "filter (\<lambda>d. latency d = l)
           (foldl (\<lambda>sorted element. insertElement init_compare element sorted) acc xs) =
         rev (filter (\<lambda>d. latency d = l) xs) @ filter (\<lambda>d. latency d = l) acc"
  using assms
proof (induction xs arbitrary: acc)
  case Nil
  then show ?case by simp
next
  case (Cons x xs)
  have n: "\<forall>d \<in> set (insertElement init_compare x acc) \<union> set xs. latency d \<noteq> Some 0"
    using Cons.prems by (auto simp: set_insertElement)
  have f: "filter (\<lambda>d. latency d = l) (insertElement init_compare x acc) =
         (if latency x = l then x # filter (\<lambda>d. latency d = l) acc
          else filter (\<lambda>d. latency d = l) acc)"
    using Cons.prems by (intro insertElement_filter) auto
  show ?case
    using Cons.IH [OF n] f by simp
qed

text \<open>
  What the ranking of the init command does achieve: when no probe measured \<open>0\<close>
  milliseconds, the ranking is a permutation of the timings, ascending by latency with
  the unreachable candidates last, and timings of equal latency keep their order.
\<close>

lemma init_ranking_without_zero:
  assumes "\<forall>d \<in> set dcTimers. latency d \<noteq> Some 0"
  shows "mset (init_ranking dcTimers) = mset dcTimers"
    and "sorted_wrt (\<lambda>x y. rankedBefore (latency x) (latency y)) (init_ranking dcTimers)"
    and "filter (\<lambda>d. latency d = l) (init_ranking dcTimers) = filter (\<lambda>d. latency d = l) dcTimers"
proof -
  show "mset (init_ranking dcTimers) = mset dcTimers"
    by (simp add: init_ranking_def mset_js_sort)
  have "sorted_wrt (\<lambda>x y. rankedBefore (latency y) (latency x))
          (foldl (\<lambda>sorted element. insertElement init_compare element sorted) [] dcTimers)"
    using assms by (intro foldl_insertElement_sorted) auto
  then show "sorted_wrt (\<lambda>x y. rankedBefore (latency x) (latency y)) (init_ranking dcTimers)"
    by (simp add: init_ranking_def js_sort_def sorted_wrt_rev)
  have "filter (\<lambda>d. latency d = l)
          (foldl (\<lambda>sorted element. insertElement init_compare element sorted) [] dcTimers) =
        rev (filter (\<lambda>d. latency d = l) dcTimers) @ filter (\<lambda>d. latency d = l) []"
    using assms by (intro foldl_insertElement_filter) auto
  then show "filter (\<lambda>d. latency d = l) (init_ranking dcTimers) = filter (\<lambda>d. latency d = l) dcTimers"
    by (simp add: init_ranking_def js_sort_def rev_filter [symmetric])
qed

text \<open>
  C1. The rankings at two inputs. In the init command a probe that measured \<open>0\<close> ms is
  keyed like an unreachable one: with the timings \<open>C\<close> unreachable, \<open>A\<close> at 0 ms and \<open>B\<close>
  at 5 ms the ranking is \<open>B, C, A\<close>, so the reachable candidate of smallest latency comes
  last, behind an unreachable one. In the deploy command the comparator returns \<open>1\<close> or
  \<open>0\<close>: with \<open>A\<close> at 20 ms listed before \<open>B\<close> at 10 ms the order stays \<open>A, B\<close> and the
  resolver returns \<open>A\<close>, not the closest cluster.
\<close>

theorem ranking_at_failing_inputs:
  "map (c_id \<circ> cluster) (init_ranking [timed ''C'' None, timed ''A'' (Some 0), timed ''B'' (Some 5)])
     = [''B'', ''C'', ''A'']
   \<and> map (c_id \<circ> cluster) (availableDcs [timed ''A'' (Some 20), timed ''B'' (Some 10)])
     = [''A'', ''B'']
   \<and> snd (deploy_getCluster (exampleWorld [clusterNamed ''A'', clusterNamed ''B''] examplePing))
     = Some (clusterNamed ''A'')"
  by (simp add: init_ranking_def init_compare_def orInfinity_def example_defs resolver_defs)

section \<open>Properties of the cluster resolvers\<close>

text \<open>
  The deploy command has no shortcut for a single candidate: the one candidate \<open>D\<close>,
  whose probe fails, is probed once and not selected.
\<close>

theorem single_candidate_counterexample:
  "lc_edges (listCluster (exampleWorld [clusterNamed ''D''] examplePing)) = [clusterNamed ''D'']
   \<and> deploy_getCluster (exampleWorld [clusterNamed ''D''] examplePing) =
       ([FetchListCluster, LogLine ''Load available clusters'', FetchPing ''http://ping.D''], None)"
  by (simp add: example_defs resolver_defs)

text \<open>
  C2, as amended. For a candidate list of exactly one cluster, the resolver of the init
  command selects that cluster and issues no probe. The resolver of the deploy command,
  when the listing carries no error, probes that one cluster and selects it only if the
  probe succeeded; otherwise it returns \<open>null\<close>.
\<close>

theorem single_candidate:
  assumes "lc_edges (listCluster w) = [node]"
  shows "init_getCluster w =
           ([ActionStart ''Load available clusters'', FetchListCluster, ActionStop], Some node)
         \<and> probes (fst (init_getCluster w)) = []
         \<and> (lc_errors (listCluster w) = [] \<longrightarrow>
              deploy_getCluster w =
                ([FetchListCluster, LogLine ''Load available clusters'', FetchPing (pingUrl node)],
                 if fetchPing w (pingUrl node) = None then None else Some node))"
  using assms
  by (simp add: init_getCluster_def deploy_getCluster_def availableDcs_def js_sort_def
        timeProbe_def)

theorem single_candidate_witness:
  "lc_edges (listCluster (exampleWorld [clusterNamed ''A''] examplePing)) = [clusterNamed ''A'']
   \<and> init_getCluster (exampleWorld [clusterNamed ''A''] examplePing) =
       ([ActionStart ''Load available clusters'', FetchListCluster, ActionStop], Some (clusterNamed ''A''))
   \<and> deploy_getCluster (exampleWorld [clusterNamed ''A''] examplePing) =
       ([FetchListCluster, LogLine ''Load available clusters'', FetchPing ''http://ping.A''],
        Some (clusterNamed ''A''))"
proof -
  have h: "lc_edges (listCluster (exampleWorld [clusterNamed ''A''] examplePing)) = [clusterNamed ''A'']"
    by (simp add: exampleWorld_def)
  have e: "lc_errors (listCluster (exampleWorld [clusterNamed ''A''] examplePing)) = []"
    by (simp add: exampleWorld_def)
  have p: "fetchPing (exampleWorld [clusterNamed ''A''] examplePing) (pingUrl (clusterNamed ''A'')) = Some 20"
    "pingUrl (clusterNamed ''A'') = ''http://ping.A''"
    by (simp_all add: exampleWorld_def examplePing_def clusterNamed_def)
  show ?thesis
    using h e p single_candidate [OF h] by simp
qed

lemma deploy_getCluster_Some:
  assumes "snd (deploy_getCluster w) = Some c"
  shows "c \<in> set (lc_edges (listCluster w)) \<and> fetchPing w (pingUrl c) \<noteq> None"
proof -
  from assms obtain first rest where
    av: "availableDcs (map (timeProbe (fetchPing w)) (lc_edges (listCluster w))) = first # rest"
    and c: "c = cluster first"
    by (auto simp: deploy_getCluster_def Let_def split: list.splits)
  have "first \<in> set (availableDcs (map (timeProbe (fetchPing w)) (lc_edges (listCluster w))))"
    using av by simp
  then have "first \<in> set (map (timeProbe (fetchPing w)) (lc_edges (listCluster w)))"
    and l: "latency first \<noteq> None"
    by (simp_all add: set_availableDcs)
  then obtain node where "node \<in> set (lc_edges (listCluster w))"
    and "first = timeProbe (fetchPing w) node"
    by auto
  with c l show ?thesis
    by (simp add: timeProbe_def)
qed

lemma deploy_getCluster_all_fail:
  assumes "\<forall>node \<in> set (lc_edges (listCluster w)). fetchPing w (pingUrl node) = None"
  shows "snd (deploy_getCluster w) = None"
proof (cases "snd (deploy_getCluster w)")
  case None
  then show ?thesis .
next
  case (Some c)
  from deploy_getCluster_Some [OF Some] assms show ?thesis by auto
qed

section \<open>Properties of the environment resolver\<close>

text \<open>The five ways through the resolver, with the store, the trace and the result of each.\<close>

lemma getOrCreateEnvironment_cases:
  assumes "getOrCreateEnvironment opts w st = (st', tr, res)"
  obtains
    (existing) env where
      "getEnvironment st (envName opts) = Some env" "st' = st" "tr = []" "res = Inr env"
  | (no_cluster) pre where
      "getEnvironment st (envName opts) = None" "snd (deploy_getCluster w) = None"
      "st' = st" "storeWrites pre = []" "createCalls pre = []"
      "tr = pre @ [LogError ''There is currently no cluster with sufficient capacity available. Try again later.'']"
      "res = Inl (Error ''Error creating project'')"
  | (no_project) pre input where
      "getEnvironment st (envName opts) = None" "snd (deploy_getCluster w) \<noteq> None"
      "cp_node (createProject w input) = None"
      "st' = st" "storeWrites pre = []" "createCalls pre = []"
      "tr = pre @ [FetchCreateProject input, LogError ''ERROR: Could not create project. Please try again later.'']
              @ map LogError (cp_errors (createProject w input))"
      "res = Inl (Error ''Error creating project'')"
  | (no_version) pre input project where
      "getEnvironment st (envName opts) = None" "snd (deploy_getCluster w) \<noteq> None"
      "cp_node (createProject w input) = Some project" "p_version project = None"
      "st' = st" "storeWrites pre = []" "createCalls pre = []"
      "tr = pre @ [FetchCreateProject input]"
      "res = Inl TypeError"
  | (created) pre input project v where
      "getEnvironment st (envName opts) = None" "snd (deploy_getCluster w) \<noteq> None"
      "cp_node (createProject w input) = Some project" "p_version project = Some v"
      "st' = st(envName opts \<mapsto> envOf project v)" "storeWrites pre = []" "createCalls pre = []"
      "tr = pre @ [FetchCreateProject input, UpdateEnvironment (envName opts) (envOf project v)]"
      "res = Inr (envOf project v)"
proof (cases "getEnvironment st (envName opts)")
  case (Some env)
  have "st' = st \<and> tr = [] \<and> res = Inr env"
    using assms Some by (simp add: getOrCreateEnvironment_def)
  then show ?thesis
    using Some by (intro existing [of env]) simp_all
next
  case None
  obtain ps nn na where nv:
    "newValues opts w (suggestions opts (envName opts) (getEnvironment st ''default'')) = (ps, nn, na)"
    by (cases "newValues opts w (suggestions opts (envName opts) (getEnvironment st ''default''))") auto
  obtain pr found where gc: "deploy_getCluster w = (pr, found)"
    by (cases "deploy_getCluster w") auto
  have sw: "storeWrites ps = []" "storeWrites pr = []"
    using storeWrites_newValues [of opts w "suggestions opts (envName opts) (getEnvironment st ''default'')"]
      storeWrites_deploy_getCluster [of w] nv gc by simp_all
  have cc: "createCalls ps = []" "createCalls pr = []"
    using createCalls_newValues [of opts w "suggestions opts (envName opts) (getEnvironment st ''default'')"]
      createCalls_deploy_getCluster [of w] nv gc by simp_all
  define pre where "pre = LogLine (''Creating project for env \"'' @ envName opts @ ''\"'') # ps @ pr"
  have pre: "storeWrites pre = []" "createCalls pre = []"
    using sw cc by (simp_all add: pre_def storeWrites_append createCalls_append)
  show ?thesis
  proof (cases found)
    case noCluster: None
    have "st' = st \<and> tr = pre @ [LogError ''There is currently no cluster with sufficient capacity available. Try again later.'']
          \<and> res = Inl (Error ''Error creating project'')"
      using assms None nv gc noCluster by (simp add: getOrCreateEnvironment_def Let_def pre_def)
    then show ?thesis
      using None gc noCluster pre by (intro no_cluster [of pre]) simp_all
  next
    case (Some cl)
    define input where "input = \<lparr>input_name = nn, input_alias = na, input_cluster = c_id cl,
                        input_account = js_or (opt_account opts) None\<rparr>"
    show ?thesis
    proof (cases "cp_node (createProject w input)")
      case noNode: None
      have "st' = st \<and> tr = pre @ [FetchCreateProject input, LogError ''ERROR: Could not create project. Please try again later.'']
              @ map LogError (cp_errors (createProject w input))
            \<and> res = Inl (Error ''Error creating project'')"
        using assms None nv gc Some noNode
        by (simp add: getOrCreateEnvironment_def Let_def pre_def input_def)
      then show ?thesis
        using None gc Some noNode pre by (intro no_project [of input pre]) simp_all
    next
      case project: (Some project)
      show ?thesis
      proof (cases "p_version project")
        case noVersion: None
        have "st' = st \<and> tr = pre @ [FetchCreateProject input] \<and> res = Inl TypeError"
          using assms None nv gc Some project noVersion
          by (simp add: getOrCreateEnvironment_def Let_def pre_def input_def)
        then show ?thesis
          using None gc Some project noVersion pre by (intro no_version [of input project pre]) simp_all
      next
        case v: (Some v)
        have "st' = st(envName opts \<mapsto> envOf project v)
              \<and> tr = pre @ [FetchCreateProject input, UpdateEnvironment (envName opts) (envOf project v)]
              \<and> res = Inr (envOf project v)"
          using assms None nv gc Some project v
          by (simp add: getOrCreateEnvironment_def Let_def pre_def input_def updateEnvironment_def)
        then show ?thesis
          using None gc Some project v pre by (intro created [of input project v pre]) simp_all
      qed
    qed
  qed
qed

text \<open>
  C10. In the deploy command a cluster that the resolver returns is one of the listed
  candidates and its probe succeeded; when every probe fails the resolver returns
  \<open>null\<close>; and the environment resolver turns that \<open>null\<close> into the message that no cluster
  with sufficient capacity is available and the error \<open>Error creating project\<close>, the store
  untouched.
\<close>

theorem deploy_cluster_reachable:
  "(snd (deploy_getCluster w) = Some c \<longrightarrow>
      c \<in> set (lc_edges (listCluster w)) \<and> fetchPing w (pingUrl c) \<noteq> None)
   \<and> ((\<forall>node \<in> set (lc_edges (listCluster w)). fetchPing w (pingUrl node) = None) \<longrightarrow>
        snd (deploy_getCluster w) = None)
   \<and> (getEnvironment st (envName opts) = None \<and> snd (deploy_getCluster w) = None \<longrightarrow>
        fst (getOrCreateEnvironment opts w st) = st
        \<and> last (fst (snd (getOrCreateEnvironment opts w st))) =
            LogError ''There is currently no cluster with sufficient capacity available. Try again later.''
        \<and> snd (snd (getOrCreateEnvironment opts w st)) = Inl (Error ''Error creating project''))"
proof -
  have "fst (getOrCreateEnvironment opts w st) = st
        \<and> last (fst (snd (getOrCreateEnvironment opts w st))) =
            LogError ''There is currently no cluster with sufficient capacity available. Try again later.''
        \<and> snd (snd (getOrCreateEnvironment opts w st)) = Inl (Error ''Error creating project'')"
    if "getEnvironment st (envName opts) = None" "snd (deploy_getCluster w) = None"
  proof -
    obtain st' tr res where g: "getOrCreateEnvironment opts w st = (st', tr, res)"
      by (cases "getOrCreateEnvironment opts w st") auto
    then show ?thesis
      using that by (cases rule: getOrCreateEnvironment_cases) (simp_all add: g)
  qed
  then show ?thesis
    using deploy_getCluster_Some deploy_getCluster_all_fail by blast
qed

theorem deploy_cluster_reachable_witness:
  "snd (deploy_getCluster (exampleWorld [clusterNamed ''A'', clusterNamed ''D''] examplePing))
     = Some (clusterNamed ''A'')
   \<and> fetchPing (exampleWorld [clusterNamed ''A'', clusterNamed ''D''] examplePing)
        (pingUrl (clusterNamed ''A'')) \<noteq> None
   \<and> snd (deploy_getCluster (exampleWorld [clusterNamed ''D'', clusterNamed ''E''] examplePing)) = None
   \<and> snd (snd (getOrCreateEnvironment exampleOptions
        (exampleWorld [clusterNamed ''D'', clusterNamed ''E''] examplePing) Map.empty))
     = Inl (Error ''Error creating project'')"
proof -
  have a: "snd (deploy_getCluster (exampleWorld [clusterNamed ''A'', clusterNamed ''D''] examplePing))
     = Some (clusterNamed ''A'')"
    by (simp add: example_defs resolver_defs)
  have b: "\<forall>node \<in> set (lc_edges (listCluster (exampleWorld [clusterNamed ''D'', clusterNamed ''E''] examplePing))).
           fetchPing (exampleWorld [clusterNamed ''D'', clusterNamed ''E''] examplePing) (pingUrl node) = None"
    by (simp add: example_defs)
  have c: "getEnvironment Map.empty (envName exampleOptions) = None"
    by (simp add: getEnvironment_def)
  show ?thesis
    using a b c
      deploy_cluster_reachable [of "exampleWorld [clusterNamed ''A'', clusterNamed ''D''] examplePing"
        "clusterNamed ''A''" Map.empty exampleOptions]
      deploy_cluster_reachable [of "exampleWorld [clusterNamed ''D'', clusterNamed ''E''] examplePing"
        "clusterNamed ''A''" Map.empty exampleOptions]
    by simp
qed

text \<open>
  The name the resolver looks up is the one the caller gives with \<open>--env\<close>, and
  \<open>default\<close> when the caller gives none or an empty one.
\<close>

lemma envName_env: "n \<noteq> [] \<Longrightarrow> envName (opts\<lparr>opt_env := Some n\<rparr>) = n"
  by (simp add: envName_def js_or_def truthy_def template_def)

lemma envName_default: "\<not> truthy (opt_env opts) \<Longrightarrow> envName opts = ''default''"
  by (simp add: envName_def js_or_def template_def)

text \<open>
  C7. For every environment name \<open>n\<close> under which the store holds a record: resolving
  \<open>n\<close>, asked for with \<open>--env n\<close> (or, for \<open>default\<close>, with no or an empty \<open>--env\<close>),
  returns the record stored under \<open>n\<close>, leaves the store as it is and has an empty
  trace: no cluster listing, no probe, no project creation.
\<close>

theorem existing_environment_returned:
  assumes "st n = Some env"
  shows "(n \<noteq> [] \<longrightarrow>
            getOrCreateEnvironment (opts\<lparr>opt_env := Some n\<rparr>) w st = (st, [], Inr env))
       \<and> (n = ''default'' \<and> \<not> truthy (opt_env opts) \<longrightarrow>
            getOrCreateEnvironment opts w st = (st, [], Inr env))
       \<and> (envName opts = n \<longrightarrow> getOrCreateEnvironment opts w st = (st, [], Inr env))"
proof -
  have general: "getOrCreateEnvironment o' w st = (st, [], Inr env)" if "envName o' = n" for o'
    using that assms by (simp add: getOrCreateEnvironment_def getEnvironment_def)
  have "getOrCreateEnvironment (opts\<lparr>opt_env := Some n\<rparr>) w st = (st, [], Inr env)" if "n \<noteq> []"
    using that by (intro general) (rule envName_env)
  moreover have "getOrCreateEnvironment opts w st = (st, [], Inr env)"
    if "n = ''default''" "\<not> truthy (opt_env opts)"
    using that by (intro general) (simp add: envName_default)
  ultimately show ?thesis
    using general [of opts] by blast
qed

theorem existing_environment_returned_witness:
  "twoEnvStore ''staging'' = Some stagingEnv
   \<and> getOrCreateEnvironment (exampleOptions\<lparr>opt_env := Some ''staging''\<rparr>)
        (exampleWorld [] examplePing) twoEnvStore
       = (twoEnvStore, [], Inr stagingEnv)
   \<and> twoEnvStore ''default'' = Some exampleEnv
   \<and> getOrCreateEnvironment exampleOptions (exampleWorld [] examplePing) twoEnvStore
       = (twoEnvStore, [], Inr exampleEnv)"
proof -
  have a: "twoEnvStore ''staging'' = Some stagingEnv"
    by (simp add: twoEnvStore_def)
  have b: "twoEnvStore ''default'' = Some exampleEnv"
    by (simp add: twoEnvStore_def exampleStore_def)
  have c: "\<not> truthy (opt_env exampleOptions)"
    by (simp add: truthy_def exampleOptions_def)
  show ?thesis
    using a b c
      existing_environment_returned
        [of twoEnvStore "''staging''" stagingEnv exampleOptions "exampleWorld [] examplePing"]
      existing_environment_returned
        [of twoEnvStore "''default''" exampleEnv exampleOptions "exampleWorld [] examplePing"]
    by simp
qed

text \<open>
  What forced mode does when a \<open>default\<close> environment exists: the name and the alias are
  the caller's when supplied and the derived suggestions otherwise, and no prompt is
  issued. Without a \<open>default\<close> environment both stay \<open>undefined\<close>, whatever the caller
  supplied.
\<close>

lemma forced_values_with_default:
  assumes "opt_force opts"
  shows "newValues opts w (suggestions opts envN (Some d)) =
           ([],
            if truthy (opt_name opts) then opt_name opts
            else Some (template (e_name d) @ '' ('' @ envN @ '')''),
            if truthy (opt_alias opts) then opt_alias opts
            else Some (template (e_alias d) @ ''-'' @ envN))"
  using assms by (simp add: newValues_def suggestions_def js_or_def)

lemma forced_values_without_default:
  assumes "opt_force opts"
  shows "newValues opts w (suggestions opts envN None) = ([], None, None)"
  using assms by (simp add: newValues_def suggestions_def)

text \<open>
  C3. Forced mode with \<open>--name "My Project" --alias my-alias\<close> in a project directory
  whose store has no \<open>default\<close> record: the project is created with neither name nor
  alias, the caller's overrides being read only inside \<open>if (defaultEnv)\<close>.
\<close>

theorem forced_overrides_at_failing_input:
  "getEnvironment Map.empty ''default'' = None
   \<and> opt_name overrideOptions = Some ''My Project''
   \<and> opt_alias overrideOptions = Some ''my-alias''
   \<and> createCalls (fst (snd (getOrCreateEnvironment overrideOptions
        (exampleWorld [clusterNamed ''A''] examplePing) Map.empty)))
     = [\<lparr>input_name = None, input_alias = None, input_cluster = ''A'', input_account = None\<rparr>]"
  by (simp add: overrideOptions_def example_defs resolver_defs Let_def)

text \<open>
  C4. Whatever the resolver returns: if it ends in an error the store is the one it was
  given and the trace holds no write; no available cluster and a creation response
  without a node both end in the error \<open>Error creating project\<close>; and a trace that holds a
  write is the trace of a creation call whose response had a node with a version,
  followed by that single write as the last event.
\<close>

theorem no_partial_environment:
  assumes "getOrCreateEnvironment opts w st = (st', tr, res)"
  shows "(isl res \<longrightarrow> st' = st \<and> storeWrites tr = [])
       \<and> (getEnvironment st (envName opts) = None \<and> snd (deploy_getCluster w) = None
            \<longrightarrow> res = Inl (Error ''Error creating project''))
       \<and> (\<forall>input \<in> set (createCalls tr). cp_node (createProject w input) = None
            \<longrightarrow> res = Inl (Error ''Error creating project''))
       \<and> (storeWrites tr \<noteq> [] \<longrightarrow>
            (\<exists>input project v pre.
               cp_node (createProject w input) = Some project \<and> p_version project = Some v
             \<and> storeWrites pre = []
             \<and> tr = pre @ [FetchCreateProject input, UpdateEnvironment (envName opts) (envOf project v)]
             \<and> st' = st(envName opts \<mapsto> envOf project v)
             \<and> res = Inr (envOf project v)))"
  using assms
proof (cases rule: getOrCreateEnvironment_cases)
  case (existing env)
  then show ?thesis by simp
next
  case (no_cluster pre)
  then show ?thesis by (simp add: storeWrites_append createCalls_append)
next
  case (no_project pre input)
  then show ?thesis
    by (simp add: storeWrites_append createCalls_append storeWrites_LogError)
next
  case (no_version pre input project)
  then show ?thesis by (simp add: storeWrites_append createCalls_append)
next
  case (created pre input project v)
  then show ?thesis by (auto simp: storeWrites_append createCalls_append)
qed

theorem no_partial_environment_witness:
  "getOrCreateEnvironment exampleOptions noProjectWorld Map.empty =
     (Map.empty,
      [LogLine ''Creating project for env \"default\"'', FetchListCluster,
       LogLine ''Load available clusters'', FetchPing ''http://ping.A'',
       FetchCreateProject
         \<lparr>input_name = None, input_alias = None, input_cluster = ''A'', input_account = None\<rparr>,
       LogError ''ERROR: Could not create project. Please try again later.'',
       LogError ''Error''],
      Inl (Error ''Error creating project''))
   \<and> storeWrites (fst (snd (getOrCreateEnvironment exampleOptions noProjectWorld Map.empty))) = []"
proof -
  have h: "getOrCreateEnvironment exampleOptions noProjectWorld Map.empty =
     (Map.empty,
      [LogLine ''Creating project for env \"default\"'', FetchListCluster,
       LogLine ''Load available clusters'', FetchPing ''http://ping.A'',
       FetchCreateProject
         \<lparr>input_name = None, input_alias = None, input_cluster = ''A'', input_account = None\<rparr>,
       LogError ''ERROR: Could not create project. Please try again later.'',
       LogError ''Error''],
      Inl (Error ''Error creating project''))"
    by (simp add: noProjectWorld_def example_defs resolver_defs)
  show ?thesis
    using h no_partial_environment [OF h] by simp
qed

section \<open>Properties of the deployment orchestrator\<close>

lemma nonNull_entries:
  "map Some (concat (map (\<lambda>e. case e of None \<Rightarrow> [] | Some x \<Rightarrow> [x]) es)) = filter (\<lambda>x. x \<noteq> None) es"
  by (induction es) (auto split: option.splits)

lemma serverErrors_nonempty:
  "serverErrors result \<noteq> [] \<longleftrightarrow> (\<exists>e. Some e \<in> set (mp_errors result))"
proof -
  have "set (map Some (serverErrors result)) = set (filter (\<lambda>x. x \<noteq> None) (mp_errors result))"
    by (simp add: serverErrors_def nonNull_entries)
  then have "Some ` set (serverErrors result) = {x \<in> set (mp_errors result). x \<noteq> None}"
    by simp
  then show ?thesis by (cases "serverErrors result") auto
qed

lemma lacksBundle_iff: "lacksBundle result \<longleftrightarrow> deployedBundle result = None"
  by (auto simp: lacksBundle_def deployedBundle_def truthy_def split: option.splits)

text \<open>
  A migration response whose \<open>errors\<close> array is \<open>[null]\<close>: the array is not empty, the
  filter leaves nothing, and the run goes on to refresh the local files.
\<close>

theorem null_errors_counterexample:
  "mp_errors (migrateProject nullErrorsWorld exampleEnv) \<noteq> []
   \<and> refreshes (fst (snd (run exampleOptions nullErrorsWorld exampleStore)))
      = [''http://localhost/fakeversionbundle.zip'']"
  by (simp add: nullErrorsWorld_def example_defs resolver_defs run_defs)

text \<open>
  C5, as amended. For every migration response whose \<open>errors\<close> array has an entry that is
  not \<open>null\<close>, what follows the migration call hands the entries that are not \<open>null\<close> to
  \<open>printErrors\<close>, which prints each of them once and in order, and does nothing else; no
  refresh of the local files is in the trace, neither there nor in the whole run.
\<close>

theorem migration_errors_abort:
  assumes "Some e \<in> set (mp_errors result)"
  shows "afterMigration w result = printErrors (serverErrors result)
         \<and> printErrors (serverErrors result) = map PrintError (serverErrors result)
         \<and> map Some (serverErrors result) = filter (\<lambda>x. x \<noteq> None) (mp_errors result)
         \<and> e \<in> set (serverErrors result)
         \<and> refreshes (afterMigration w result) = []
         \<and> ((\<forall>env. migrateProject w env = result) \<longrightarrow> refreshes (fst (snd (run opts w st))) = [])"
proof -
  from assms have ne: "serverErrors result \<noteq> []"
    using serverErrors_nonempty by blast
  then have a: "afterMigration w result = printErrors (serverErrors result)"
    by (simp add: afterMigration_def)
  have p: "printErrors (serverErrors result) = map PrintError (serverErrors result)"
    by (simp add: printErrors_def)
  have f: "map Some (serverErrors result) = filter (\<lambda>x. x \<noteq> None) (mp_errors result)"
    by (simp add: serverErrors_def nonNull_entries)
  have m: "e \<in> set (serverErrors result)"
    using assms unfolding serverErrors_def by (force split: option.splits)
  have r: "refreshes (afterMigration w result) = []"
    using a refreshes_printErrors [of "serverErrors result"] by simp
  have "refreshes (fst (snd (run opts w st))) = []" if "\<forall>env. migrateProject w env = result"
    using that r by (intro refreshes_run) simp
  with a p f m r show ?thesis by blast
qed

theorem migration_errors_abort_witness:
  "Some (ProjectChangeError ''Type User not found'') \<in> set (mp_errors failedMigration)
   \<and> afterMigration failedMigrationWorld failedMigration
       = [PrintError (ProjectChangeError ''Type User not found'')]
   \<and> refreshes (fst (snd (run exampleOptions failedMigrationWorld exampleStore))) = []"
proof -
  have h: "Some (ProjectChangeError ''Type User not found'') \<in> set (mp_errors failedMigration)"
    by (simp add: failedMigration_def)
  have g: "\<forall>env. migrateProject failedMigrationWorld env = failedMigration"
    by (simp add: failedMigrationWorld_def exampleWorld_def)
  have s: "serverErrors failedMigration = [ProjectChangeError ''Type User not found'']"
    by (simp add: serverErrors_def failedMigration_def)
  show ?thesis
    using h g s
      migration_errors_abort [OF h, of failedMigrationWorld exampleOptions exampleStore]
    by (simp add: printErrors_def)
qed

text \<open>
  A migration response that failed with an error and has no project node: the run
  prints the error and stops; the message that the version was not deployed is not
  printed.
\<close>

theorem not_deployed_counterexample:
  "lacksBundle failedMigration
   \<and> afterMigration failedMigrationWorld failedMigration
       = [PrintError (ProjectChangeError ''Type User not found'')]
   \<and> LogError ''The version was not deployed. Try again later.''
       \<notin> set (afterMigration failedMigrationWorld failedMigration)"
  by (simp add: lacksBundle_def failedMigration_def afterMigration_def serverErrors_def
        printErrors_def)

text \<open>
  C6, as amended. For every migration response whose project node is missing or lacks a
  non-empty \<open>version.bundle\<close>, no refresh of the local files is in the trace, neither in
  what follows the migration call nor in the whole run; and when the response carries no
  error entry other than \<open>null\<close>, what follows the migration call is the message that the
  version was not deployed, then one line \<open>Error: ...\<close> for each message of the response's
  top-level \<open>errors\<close>, and nothing else. When it carries such an entry, the errors are
  printed instead and the message is not.
\<close>

theorem missing_bundle_aborts:
  assumes "lacksBundle result"
  shows "refreshes (afterMigration w result) = []
         \<and> (serverErrors result = [] \<longrightarrow>
              afterMigration w result =
                LogError ''The version was not deployed. Try again later.''
                  # map (\<lambda>message. LogError (''Error: '' @ message)) (mr_errors result))
         \<and> (serverErrors result \<noteq> [] \<longrightarrow>
              afterMigration w result = printErrors (serverErrors result))
         \<and> ((\<forall>env. migrateProject w env = result) \<longrightarrow> refreshes (fst (snd (run opts w st))) = [])"
proof -
  from assms have n: "deployedBundle result = None"
    by (simp add: lacksBundle_iff)
  have e: "afterMigration w result = printErrors (serverErrors result)"
    if "serverErrors result \<noteq> []"
    using that by (simp add: afterMigration_def)
  have r: "refreshes (afterMigration w result) = []"
    using n by (simp add: afterMigration_def refreshes_printErrors refreshes_LogError)
  have m: "afterMigration w result =
           LogError ''The version was not deployed. Try again later.''
             # map (\<lambda>message. LogError (''Error: '' @ message)) (mr_errors result)"
    if "serverErrors result = []"
    using that n by (simp add: afterMigration_def)
  have "refreshes (fst (snd (run opts w st))) = []" if "\<forall>env. migrateProject w env = result"
    using that r by (intro refreshes_run) simp
  with r m e show ?thesis by blast
qed

theorem missing_bundle_aborts_witness:
  "lacksBundle notDeployed
   \<and> afterMigration notDeployedWorld notDeployed
       = [LogError ''The version was not deployed. Try again later.'',
          LogError ''Error: No capacity'']
   \<and> refreshes (fst (snd (run exampleOptions notDeployedWorld exampleStore))) = []"
proof -
  have h: "lacksBundle notDeployed"
    by (simp add: lacksBundle_def notDeployed_def)
  have g: "\<forall>env. migrateProject notDeployedWorld env = notDeployed"
    by (simp add: notDeployedWorld_def exampleWorld_def)
  have s: "serverErrors notDeployed = []" "mr_errors notDeployed = [''No capacity'']"
    by (simp_all add: serverErrors_def notDeployed_def)
  show ?thesis
    using h g s
      missing_bundle_aborts [OF h, of notDeployedWorld exampleOptions exampleStore]
    by simp
qed

section \<open>Properties of the summary\<close>

lemma foldl_countChange_add:
  "add (foldl countChange acc cs) = add acc + tagged ''add'' cs"
  by (induction cs arbitrary: acc) (auto simp: countChange_def tagged_def Let_def)

lemma foldl_countChange_update:
  "update (foldl countChange acc cs) = update acc + tagged ''update'' cs"
  by (induction cs arbitrary: acc) (auto simp: countChange_def tagged_def Let_def)

lemma foldl_countChange_remove:
  "remove (foldl countChange acc cs) = remove acc + tagged ''remove'' cs"
  by (induction cs arbitrary: acc) (auto simp: countChange_def tagged_def Let_def)

text \<open>
  C8. For every list of change records the summary holds, in each of the buckets
  \<open>add\<close>, \<open>update\<close> and \<open>remove\<close>, the number of records whose type tag is that word once
  lower-cased; the list \<open>ADD, update, ADD, REMOVE\<close> gives \<open>{add: 2, update: 1, remove: 1}\<close>.
\<close>

theorem change_summary_counts:
  "changeSummary cs =
     \<lparr>update = tagged ''update'' cs, add = tagged ''add'' cs, remove = tagged ''remove'' cs\<rparr>
   \<and> changeSummary
       [\<lparr>ctype = ''ADD'', description = []\<rparr>, \<lparr>ctype = ''update'', description = []\<rparr>,
        \<lparr>ctype = ''ADD'', description = []\<rparr>, \<lparr>ctype = ''REMOVE'', description = []\<rparr>]
     = \<lparr>update = 1, add = 2, remove = 1\<rparr>"
proof
  show "changeSummary cs =
     \<lparr>update = tagged ''update'' cs, add = tagged ''add'' cs, remove = tagged ''remove'' cs\<rparr>"
    by (simp add: changeSummary_def foldl_countChange_add foldl_countChange_update
          foldl_countChange_remove)
  show "changeSummary
       [\<lparr>ctype = ''ADD'', description = []\<rparr>, \<lparr>ctype = ''update'', description = []\<rparr>,
        \<lparr>ctype = ''ADD'', description = []\<rparr>, \<lparr>ctype = ''REMOVE'', description = []\<rparr>]
     = \<lparr>update = 1, add = 2, remove = 1\<rparr>"
    by code_simp
qed

text \<open>
  C9. The report at the summary \<open>{add: 1, update: 0, remove: 2}\<close>: the code appends the
  \<open>s\<close> exactly when the count is 1, so the line reads \<open>1 additions, 0 update, 2 removal\<close>
  where the specification expects \<open>1 addition, 0 updates, 2 removals\<close>.
\<close>

theorem summary_line_at_failing_input:
  "summaryLine \<lparr>update = 0, add = 1, remove = 2\<rparr> = ''1 additions, 0 update, 2 removal''"
  by code_simp

end
